theory Spec2Isabelle
  imports Complex_Main
begin

section \<open>Python values, errors and the entity directory\<close>

text \<open>
  The repository is a set of notebooks driving the OGGM library. The one class it defines
  is \<open>RandomLinearMassBalance\<close> (docs/day_5/user_defined_mb_model.ipynb); everything else
  is a sequence of library calls. Python ints are modelled as \<open>int\<close>, exceptions as the
  left summand of a sum type. Python floats are a type parameter with its arithmetic (see
  below); a number written in the source or stored in a file is kept as the exact value
  it denotes.
\<close>

datatype error =
    TypeError
  | ValueError
  | OverflowError
  | IndexError
  | KeyError string
  | AttributeError string
  | FileNotFoundError "string \<times> string \<times> string"
  | LibraryError nat

text \<open>
  The values a caller can pass as \<open>year\<close>: an int, a finite float, the floats nan and
  inf, and \<open>None\<close> (the default of \<open>get_annual_mb\<close>).
\<close>

datatype pyval = PyInt int | PyFloat real | PyNaN | PyInf | PyNone

text \<open>
  Python's \<open>int(x)\<close>: the identity on ints, truncation towards zero on finite floats,
  \<open>ValueError\<close> on nan, \<open>OverflowError\<close> on inf, \<open>TypeError\<close> on \<open>None\<close>.
\<close>

definition py_int :: "pyval \<Rightarrow> error + int" where
  "py_int v =
     (case v of
        PyInt i \<Rightarrow> Inr i
      | PyFloat r \<Rightarrow> Inr (if 0 \<le> r then \<lfloor>r\<rfloor> else \<lceil>r\<rceil>)
      | PyNaN \<Rightarrow> Inl ValueError
      | PyInf \<Rightarrow> Inl OverflowError
      | PyNone \<Rightarrow> Inl TypeError)"

text \<open>
  A file of an entity directory is named by the entity identifier, the logical product
  name and the file suffix: \<open>gdir.get_filepath(name, filesuffix=suffix)\<close>. A dataset is
  its variables, each a flattened array. The world is the files on disk and the dataset
  handles currently open.
\<close>

type_synonym path = "string \<times> string \<times> string"

type_synonym dataset = "string \<rightharpoonup> real list"

record world =
  files :: "path \<rightharpoonup> dataset"
  handles :: "path list"

definition get_filepath :: "string \<Rightarrow> string \<Rightarrow> string \<Rightarrow> path" where
  "get_filepath gdir name filesuffix = (gdir, name, filesuffix)"

text \<open>
  \<open>with open(p) as ds: body\<close>: the open fails when the file is missing; otherwise the
  handle is held while the body runs and released when the block is left, by a normal
  exit as well as by an exception of the body.
\<close>

definition with_dataset :: "path \<Rightarrow> (dataset \<Rightarrow> error + 'a) \<Rightarrow> world \<Rightarrow> (error + 'a) \<times> world" where
  "with_dataset p body w =
     (case files w p of
        None \<Rightarrow> (Inl (FileNotFoundError p), w)
      | Some ds \<Rightarrow>
          (let w1 = w\<lparr>handles := p # handles w\<rparr>;
               r = body ds
           in (r, w1\<lparr>handles := remove1 p (handles w1)\<rparr>)))"

text \<open>\<open>nc.variables[name][:]\<close>: \<open>KeyError\<close> when the variable is missing.\<close>

definition variable :: "dataset \<Rightarrow> string \<Rightarrow> error + real list" where
  "variable ds name = (case ds name of None \<Rightarrow> Inl (KeyError name) | Some a \<Rightarrow> Inr a)"

text \<open>
  \<open>a[mask == 1]\<close>: boolean-mask indexing, \<open>IndexError\<close> when the shapes differ.
\<close>

definition mask_select :: "real list \<Rightarrow> real list \<Rightarrow> error + real list" where
  "mask_select a glacier_mask =
     (if length a \<noteq> length glacier_mask then Inl IndexError
      else Inr (map fst (filter (\<lambda>(x, m). m = 1) (zip a glacier_mask))))"

section \<open>The library as parameters\<close>

text \<open>
  A Python float is an IEEE 754 binary64 number: its operations round, overflow to
  \<open>inf\<close>, underflow to zero, and give \<open>inf\<close> or \<open>nan\<close> where the real division by zero
  is undefined (numpy does not raise there). The arithmetic is not code of the
  repository: the type \<open>'f\<close> of the floats and the four operations the class uses are
  parameters, and nothing is assumed of them.
\<close>

record 'f arithmetic =
  fadd :: "'f \<Rightarrow> 'f \<Rightarrow> 'f"
  fsub :: "'f \<Rightarrow> 'f \<Rightarrow> 'f"
  fmul :: "'f \<Rightarrow> 'f \<Rightarrow> 'f"
  fdiv :: "'f \<Rightarrow> 'f \<Rightarrow> 'f"

text \<open>
  numpy is not part of the repository: the generator behind \<open>np.random.RandomState\<close> and
  \<open>np.percentile\<close> are parameters. \<open>seed_state\<close> is \<open>RandomState(seed)\<close> for an integer
  seed (numpy refuses some integers), \<open>randn\<close> draws one standard-normal sample and
  returns the advanced generator.
\<close>

record ('g, 'f) numpy =
  seed_state :: "int \<Rightarrow> error + 'g"
  randn :: "'g \<Rightarrow> 'f \<times> 'g"
  percentile :: "real list \<Rightarrow> real \<Rightarrow> 'f"

text \<open>
  \<open>RandomState(None)\<close> seeds the generator from the operating system: the state it
  gets is the argument \<open>entropy\<close>, different at every construction.
\<close>

definition RandomState :: "('g, 'f) numpy \<Rightarrow> 'g \<Rightarrow> int option \<Rightarrow> error + 'g" where
  "RandomState np entropy seed =
     (case seed of None \<Rightarrow> Inr entropy | Some n \<Rightarrow> seed_state np n)"

text \<open>
  \<open>oggm.cfg\<close>: the constant \<open>SEC_IN_YEAR\<close> and the global dictionary \<open>PARAMS\<close>.
\<close>

record 'f cfg =
  SEC_IN_YEAR :: 'f
  PARAMS :: "string \<rightharpoonup> 'f"

section \<open>RandomLinearMassBalance\<close>

record ('g, 'f) RandomLinearMassBalance =
  valid_bounds :: "real \<times> real"
  grad :: 'f
  sigma_ela :: 'f
  hemisphere :: string
  rng :: 'g
  orig_ela_h :: 'f
  ela_h_per_year :: "int \<rightharpoonup> 'f"

text \<open>
  \<open>__init__(self, gdir, grad=3., sigma_ela=100., seed=None)\<close>. The base-class
  initialiser is library code and sets fields of the instance only.
\<close>

definition read_grids :: "dataset \<Rightarrow> error + real list \<times> real list" where
  "read_grids nc =
     (case variable nc ''glacier_mask'' of
        Inl e \<Rightarrow> Inl e
      | Inr glacier_mask \<Rightarrow>
          (case variable nc ''topo_smoothed'' of
             Inl e \<Rightarrow> Inl e
           | Inr glacier_topo \<Rightarrow> Inr (glacier_mask, glacier_topo)))"

definition RandomLinearMassBalance_init ::
  "('g, 'f) numpy \<Rightarrow> 'g \<Rightarrow> string \<Rightarrow> 'f \<Rightarrow> 'f \<Rightarrow> int option \<Rightarrow> world
     \<Rightarrow> (error + ('g, 'f) RandomLinearMassBalance) \<times> world" where
  "RandomLinearMassBalance_init np entropy gdir grad0 sigma_ela0 seed w =
     (case RandomState np entropy seed of
        Inl e \<Rightarrow> (Inl e, w)
      | Inr g \<Rightarrow>
          (let grids_file = get_filepath gdir ''gridded_data'' '''' in
           case with_dataset grids_file read_grids w of
             (Inl e, w') \<Rightarrow> (Inl e, w')
           | (Inr (glacier_mask, glacier_topo), w') \<Rightarrow>
               (case mask_select glacier_topo glacier_mask of
                  Inl e \<Rightarrow> (Inl e, w')
                | Inr sel \<Rightarrow>
                    (Inr \<lparr>valid_bounds = (- 10000, 20000),
                          grad = grad0,
                          sigma_ela = sigma_ela0,
                          hemisphere = ''nh'',
                          rng = g,
                          orig_ela_h = percentile np sel 40,
                          ela_h_per_year = Map.empty\<rparr>, w'))))"

definition get_random_ela_h ::
  "'f arithmetic \<Rightarrow> ('g, 'f) numpy \<Rightarrow> pyval \<Rightarrow> ('g, 'f) RandomLinearMassBalance
     \<Rightarrow> (error + 'f) \<times> ('g, 'f) RandomLinearMassBalance" where
  "get_random_ela_h ar np year self =
     (case py_int year of
        Inl e \<Rightarrow> (Inl e, self)
      | Inr y \<Rightarrow>
          (case ela_h_per_year self y of
             Some v \<Rightarrow> (Inr v, self)
           | None \<Rightarrow>
               (let (z, g) = randn np (rng self);
                    ela_h = fadd ar (orig_ela_h self) (fmul ar z (sigma_ela self))
                in (Inr ela_h,
                    self\<lparr>rng := g, ela_h_per_year := (ela_h_per_year self)(y \<mapsto> ela_h)\<rparr>))))"

text \<open>
  \<open>get_annual_mb(self, heights, year=None, fl_id=None, fls=None)\<close>; \<open>fl_id\<close> and
  \<open>fls\<close> are not used by the body. The cache is updated before the configuration is read.
\<close>

definition get_annual_mb ::
  "'f arithmetic \<Rightarrow> ('g, 'f) numpy \<Rightarrow> 'f cfg \<Rightarrow> 'f list \<Rightarrow> pyval
     \<Rightarrow> ('g, 'f) RandomLinearMassBalance
     \<Rightarrow> (error + 'f list) \<times> ('g, 'f) RandomLinearMassBalance" where
  "get_annual_mb ar np c heights year self =
     (case get_random_ela_h ar np year self of
        (Inl e, self') \<Rightarrow> (Inl e, self')
      | (Inr ela_h, self') \<Rightarrow>
          (let mb = map (\<lambda>h. fmul ar (fsub ar h ela_h) (grad self')) heights in
           case PARAMS c ''ice_density'' of
             None \<Rightarrow> (Inl (KeyError ''ice_density''), self')
           | Some d \<Rightarrow> (Inr (map (\<lambda>m. fdiv ar (fdiv ar m (SEC_IN_YEAR c)) d) mb), self')))"

text \<open>A sequence of method calls on one instance, and what each returns.\<close>

datatype 'f method_call = Call_get_random_ela_h pyval | Call_get_annual_mb "'f list" pyval

datatype 'f method_result = Ret_ela_h "error + 'f" | Ret_annual_mb "error + 'f list"

fun call_method ::
  "'f arithmetic \<Rightarrow> ('g, 'f) numpy \<Rightarrow> 'f cfg \<Rightarrow> 'f method_call
     \<Rightarrow> ('g, 'f) RandomLinearMassBalance
     \<Rightarrow> 'f method_result \<times> ('g, 'f) RandomLinearMassBalance" where
  "call_method ar np c (Call_get_random_ela_h year) self =
     (let (r, self') = get_random_ela_h ar np year self in (Ret_ela_h r, self'))"
| "call_method ar np c (Call_get_annual_mb heights year) self =
     (let (r, self') = get_annual_mb ar np c heights year self in (Ret_annual_mb r, self'))"

fun call_methods ::
  "'f arithmetic \<Rightarrow> ('g, 'f) numpy \<Rightarrow> 'f cfg \<Rightarrow> 'f method_call list
     \<Rightarrow> ('g, 'f) RandomLinearMassBalance
     \<Rightarrow> 'f method_result list \<times> ('g, 'f) RandomLinearMassBalance" where
  "call_methods ar np c [] self = ([], self)"
| "call_methods ar np c (m # ms) self =
     (let (r, self') = call_method ar np c m self;
          (rs, self'') = call_methods ar np c ms self'
      in (r # rs, self''))"

text \<open>
  A notebook session with the class: construct an instance from the entity directory,
  then call its methods. The methods do no input or output, so only the constructor
  takes the world.
\<close>

definition construct_and_call ::
  "'f arithmetic \<Rightarrow> ('g, 'f) numpy \<Rightarrow> 'f cfg \<Rightarrow> 'g \<Rightarrow> string \<Rightarrow> 'f \<Rightarrow> 'f \<Rightarrow> int option
     \<Rightarrow> 'f method_call list \<Rightarrow> world \<Rightarrow> (error + 'f method_result list) \<times> world" where
  "construct_and_call ar np c entropy gdir grad0 sigma_ela0 seed ms w =
     (case RandomLinearMassBalance_init np entropy gdir grad0 sigma_ela0 seed w of
        (Inl e, w') \<Rightarrow> (Inl e, w')
      | (Inr mb_model, w') \<Rightarrow> (Inr (fst (call_methods ar np c ms mb_model)), w'))"

subsection \<open>A concrete library, configuration and glacier\<close>

text \<open>
  The arithmetic of the real numbers, which does not round; a generator whose state is
  a counter \<open>g\<close> and whose samples are \<open>g - 1\<close>; OGGM's values of \<open>SEC_IN_YEAR\<close> and of
  the ice density; an entity directory whose gridded data have three cells, two of them
  on the glacier.
\<close>

definition exact_arithmetic :: "real arithmetic" where
  "exact_arithmetic = \<lparr>fadd = (+), fsub = (-), fmul = (*), fdiv = (/)\<rparr>"

definition example_numpy :: "(nat, real) numpy" where
  "example_numpy =
     \<lparr>seed_state = (\<lambda>n. if 0 \<le> n \<and> n < 4294967296 then Inr (nat n) else Inl ValueError),
      randn = (\<lambda>g. (real g - 1, Suc g)),
      percentile = (\<lambda>xs q. case xs of [] \<Rightarrow> 0 | x # _ \<Rightarrow> x)\<rparr>"

definition example_cfg :: "real cfg" where
  "example_cfg = \<lparr>SEC_IN_YEAR = 31536000, PARAMS = [''ice_density'' \<mapsto> 900]\<rparr>"

definition example_mb_model :: "(nat, real) RandomLinearMassBalance" where
  "example_mb_model =
     \<lparr>valid_bounds = (- 10000, 20000), grad = 3, sigma_ela = 100, hemisphere = ''nh'',
      rng = 2, orig_ela_h = 3000, ela_h_per_year = Map.empty\<rparr>"

definition example_world :: world where
  "example_world =
     \<lparr>files = [(''RGI60-11.00897'', ''gridded_data'', '''') \<mapsto>
                 [''glacier_mask'' \<mapsto> [0, 1, 1], ''topo_smoothed'' \<mapsto> [2500, 3000, 3000]]],
      handles = []\<rparr>"

text \<open>
  An arithmetic that does not compute: a float is the expression that denotes it, so
  that a result shows which operations were applied to which numbers and in which
  order, whatever their rounding. The same generator, configuration and instance over
  it.
\<close>

datatype expr = Num real | Add expr expr | Sub expr expr | Mul expr expr | Div expr expr

definition symbolic_arithmetic :: "expr arithmetic" where
  "symbolic_arithmetic = \<lparr>fadd = Add, fsub = Sub, fmul = Mul, fdiv = Div\<rparr>"

definition symbolic_numpy :: "(nat, expr) numpy" where
  "symbolic_numpy =
     \<lparr>seed_state = (\<lambda>n. if 0 \<le> n \<and> n < 4294967296 then Inr (nat n) else Inl ValueError),
      randn = (\<lambda>g. (Num (real g - 1), Suc g)),
      percentile = (\<lambda>xs q. case xs of [] \<Rightarrow> Num 0 | x # _ \<Rightarrow> Num x)\<rparr>"

definition symbolic_cfg :: "expr cfg" where
  "symbolic_cfg = \<lparr>SEC_IN_YEAR = Num 31536000, PARAMS = [''ice_density'' \<mapsto> Num 900]\<rparr>"

definition symbolic_mb_model :: "(nat, expr) RandomLinearMassBalance" where
  "symbolic_mb_model =
     \<lparr>valid_bounds = (- 10000, 20000), grad = Num 3, sigma_ela = Num 100, hemisphere = ''nh'',
      rng = 2, orig_ela_h = Num 3000, ela_h_per_year = Map.empty\<rparr>"

section \<open>The notebooks\<close>

subsection \<open>Reading datasets\<close>

text \<open>
  \<open>ds.name\<close> on an xarray dataset: \<open>AttributeError\<close> when there is no such variable.
\<close>

definition attribute :: "dataset \<Rightarrow> string \<Rightarrow> error + real list" where
  "attribute ds name = (case ds name of None \<Rightarrow> Inl (AttributeError name) | Some a \<Rightarrow> Inr a)"

text \<open>
  \<open>with xr.open_dataset(p) as ds: ds = ds.load()\<close>, the way the notebooks read
  \<open>climate_historical\<close>, \<open>gcm_data\<close>, \<open>model_diagnostics\<close>, \<open>fl_diagnostics\<close> (its
  group \<open>fl_0\<close>) and \<open>gridded_data\<close>.
\<close>

definition open_and_load :: "path \<Rightarrow> world \<Rightarrow> (error + dataset) \<times> world" where
  "open_and_load p w = with_dataset p (\<lambda>ds. Inr ds) w"

text \<open>
  \<open>with xr.open_dataset(p) as dsproj: vol_proj = dsproj.volume_m3 * 1e-9\<close>. The volumes
  are scaled as exact numbers: of this block only the handle is of interest.
\<close>

definition open_volume_km3 :: "path \<Rightarrow> world \<Rightarrow> (error + real list) \<times> world" where
  "open_volume_km3 p w =
     with_dataset p
       (\<lambda>dsproj. case attribute dsproj ''volume_m3'' of
                    Inl e \<Rightarrow> Inl e
                  | Inr volume_m3 \<Rightarrow> Inr (map (\<lambda>v. v * (1 / 1000000000)) volume_m3)) w"

text \<open>\<open>rid = f'_ISIMIP3b_{member}_{ssp}'\<close>.\<close>

definition rid :: "string \<Rightarrow> string \<Rightarrow> string" where
  "rid member ssp = ''_ISIMIP3b_'' @ member @ ''_'' @ ssp"

text \<open>
  The plotting loop of the projection notebook: for each scenario, open the
  \<open>model_diagnostics\<close> of the run and take the volume; the plot itself is left out. It
  returns the volumes read, scenario by scenario.
\<close>

fun plot_scenarios ::
  "string \<Rightarrow> string \<Rightarrow> string list \<Rightarrow> world \<Rightarrow> (error + real list list) \<times> world" where
  "plot_scenarios gdir member [] w = (Inr [], w)"
| "plot_scenarios gdir member (ssp # ssps) w =
     (case open_volume_km3 (get_filepath gdir ''model_diagnostics'' (rid member ssp)) w of
        (Inl e, w') \<Rightarrow> (Inl e, w')
      | (Inr vol_proj, w') \<Rightarrow>
          (case plot_scenarios gdir member ssps w' of
             (Inl e, w'') \<Rightarrow> (Inl e, w'')
           | (Inr vols, w'') \<Rightarrow> (Inr (vol_proj # vols), w'')))"

subsection \<open>Entity tasks\<close>

text \<open>
  The tasks the notebooks hand to \<open>workflow.execute_entity_task\<close>, with the keyword
  arguments they pass: \<open>process_monthly_isimip_data ssp member output_filesuffix\<close>,
  \<open>run_from_climate_data climate_filename climate_input_filesuffix init_model_filesuffix
  output_filesuffix\<close>, \<open>mass_conservation_inversion glen_a fs\<close>.
\<close>

datatype task =
    process_monthly_isimip_data string string string
  | run_from_climate_data string string string string
  | mass_conservation_inversion real real
  | distribute_thickness_per_altitude
  | gridded_attributes
  | gridded_mb_attributes

text \<open>
  The products of the entity directory that a call names as its output: the climate file
  that the processing writes and the diagnostics that a run writes, each with the file
  suffix given to the call.
\<close>

type_synonym product = "string \<times> string"

fun named_outputs :: "task \<Rightarrow> product list" where
  "named_outputs (process_monthly_isimip_data ssp member output_filesuffix) =
     [(''gcm_data'', output_filesuffix)]"
| "named_outputs (run_from_climate_data climate_filename climate_input_filesuffix
                    init_model_filesuffix output_filesuffix) =
     [(''model_diagnostics'', output_filesuffix)]"
| "named_outputs _ = []"

text \<open>
  The task sequences of the projection notebook: the body of the scenario loop
  \<open>for ssp in ['ssp126', 'ssp370', 'ssp585']\<close>, and the loop (run for the first glacier
  and again for Baltoro).
\<close>

definition scenario_tasks :: "string \<Rightarrow> string \<Rightarrow> task list" where
  "scenario_tasks member ssp =
     [process_monthly_isimip_data ssp member (rid member ssp),
      run_from_climate_data ''gcm_data'' (rid member ssp) ''_historical'' (rid member ssp)]"

definition run_all_scenarios :: "string \<Rightarrow> task list" where
  "run_all_scenarios member =
     concat (map (scenario_tasks member) [''ssp126'', ''ssp370'', ''ssp585''])"

subsection \<open>The OGGM library as parameters\<close>

text \<open>
  A \<open>MonthlyTIModel\<close> is a library object: what the repository knows of it are the
  arguments of its constructor (\<open>None\<close> for a parameter left to the calibrated value).
\<close>

record MonthlyTIModel =
  entity :: string
  temp_bias :: "real option"
  prcp_fac :: "real option"
  melt_f :: "real option"

text \<open>
  The library operations the notebooks call, each acting on the world.
  \<open>execute_entity_task\<close> returns the list of what the task returned for each entity;
  \<open>mb_calibration_from_scalar_mb gdir ref_mb write_to_gdir ref_period calibrate_param1
  calibrate_param2\<close> returns the calibrated parameters as a dictionary;
  \<open>calibrate_inversion_from_consensus gdirs filter_inversion_output apply_fs_on_mismatch\<close>
  returns a table.
\<close>

record 'r oggm =
  execute_entity_task :: "task \<Rightarrow> string list \<Rightarrow> world \<Rightarrow> (error + 'r list) \<times> world"
  compile_glacier_statistics :: "string list \<Rightarrow> string \<Rightarrow> bool \<Rightarrow> world \<Rightarrow> (error + unit) \<times> world"
  mb_calibration_from_scalar_mb ::
    "string \<Rightarrow> real \<Rightarrow> bool \<Rightarrow> string \<Rightarrow> string \<Rightarrow> string \<Rightarrow> world
       \<Rightarrow> (error + (string \<rightharpoonup> real)) \<times> world"
  calibrate_inversion_from_consensus ::
    "string list \<Rightarrow> bool \<Rightarrow> bool \<Rightarrow> world \<Rightarrow> (error + 'r) \<times> world"

text \<open>
  A cell that executes tasks one after the other: each call is an expression statement,
  what it returns is dropped, and an exception ends the cell.
\<close>

fun execute_tasks :: "'r oggm \<Rightarrow> task list \<Rightarrow> string list \<Rightarrow> world \<Rightarrow> (error + unit) \<times> world" where
  "execute_tasks lib [] gdirs w = (Inr (), w)"
| "execute_tasks lib (t # ts) gdirs w =
     (case execute_entity_task lib t gdirs w of
        (Inl e, w') \<Rightarrow> (Inl e, w')
      | (Inr _, w') \<Rightarrow> execute_tasks lib ts gdirs w')"

subsection \<open>The inversion loop\<close>






text \<open>
  The same loop as the sequence of its library calls, each reduced to its outcome
  (raised or not) and the world it leaves, and the runner that stops at the first call
  that raises. The runner is that of any cell: a cell is a sequence of calls on the
  state of the kernel and the storage, and an exception ends it.
\<close>

definition forget_returns :: "(error + 'r) \<times> world \<Rightarrow> (error + unit) \<times> world" where
  "forget_returns out = (case out of (Inl e, w) \<Rightarrow> (Inl e, w) | (Inr _, w) \<Rightarrow> (Inr (), w))"


fun run_calls :: "('s \<Rightarrow> (error + unit) \<times> 's) list \<Rightarrow> 's \<Rightarrow> (error + unit) \<times> 's" where
  "run_calls [] s = (Inr (), s)"
| "run_calls (call # calls) s =
     (case call s of
        (Inl e, s') \<Rightarrow> (Inl e, s')
      | (Inr _, s') \<Rightarrow> run_calls calls s')"

subsection \<open>Another optimum of the calibration\<close>

text \<open>
  The calibration notebook calls the task \<open>mb_calibration_from_scalar_mb\<close> with
  \<open>write_to_gdir=False\<close>, binds what it returns to \<open>optimal_params_2\<close> and builds a
  \<open>MonthlyTIModel\<close> from three entries of that dictionary (\<open>KeyError\<close> on a missing one).
\<close>

definition getitem :: "(string \<rightharpoonup> real) \<Rightarrow> string \<Rightarrow> error + real" where
  "getitem d k = (case d k of None \<Rightarrow> Inl (KeyError k) | Some v \<Rightarrow> Inr v)"

definition another_optimum ::
  "'r oggm \<Rightarrow> string \<Rightarrow> real \<Rightarrow> world \<Rightarrow> (error + MonthlyTIModel) \<times> world" where
  "another_optimum lib gdir reference_mb w =
     (case mb_calibration_from_scalar_mb lib gdir reference_mb False
             ''2000-01-01_2019-31-12'' ''melt_f'' ''temp_bias'' w of
        (Inl e, w') \<Rightarrow> (Inl e, w')
      | (Inr optimal_params_2, w') \<Rightarrow>
          (case getitem optimal_params_2 ''temp_bias'' of
             Inl e \<Rightarrow> (Inl e, w')
           | Inr tb \<Rightarrow>
          (case getitem optimal_params_2 ''prcp_fac'' of
             Inl e \<Rightarrow> (Inl e, w')
           | Inr pf \<Rightarrow>
          (case getitem optimal_params_2 ''melt_f'' of
             Inl e \<Rightarrow> (Inl e, w')
           | Inr mf \<Rightarrow>
               (Inr \<lparr>entity = gdir, temp_bias = Some tb, prcp_fac = Some pf, melt_f = Some mf\<rparr>,
                w')))))"

subsection \<open>Mass-balance models of the notebooks\<close>

text \<open>
  The mass-balance module of the library, as far as the notebooks use it: the methods
  \<open>get_annual_mb(heights, year=year)\<close> and \<open>get_specific_mb(fls=fls, year=years)\<close> of a
  \<open>MonthlyTIModel\<close>. The flowlines \<open>fls\<close> are those of the entity, read from its
  directory.
\<close>

record 'f oggm_massbalance =
  MonthlyTIModel_get_annual_mb :: "MonthlyTIModel \<Rightarrow> 'f list \<Rightarrow> pyval \<Rightarrow> world \<Rightarrow> error + 'f list"
  MonthlyTIModel_get_specific_mb ::
    "MonthlyTIModel \<Rightarrow> int list \<Rightarrow> world \<Rightarrow> (error + 'f list) \<times> world"

text \<open>
  The objects the notebooks ask for a mass balance are instances of the library's
  \<open>MonthlyTIModel\<close> (calibration notebook) or of the class \<open>RandomLinearMassBalance\<close>
  that the last notebook defines. \<open>mb_model.get_annual_mb(heights, year=year)\<close> is
  resolved by the class of the object.
\<close>

datatype ('g, 'f) mb_model =
    Library_model MonthlyTIModel
  | Notebook_model "('g, 'f) RandomLinearMassBalance"

definition mb_model_get_annual_mb ::
  "'f oggm_massbalance \<Rightarrow> 'f arithmetic \<Rightarrow> ('g, 'f) numpy \<Rightarrow> 'f cfg \<Rightarrow> world
     \<Rightarrow> ('g, 'f) mb_model \<Rightarrow> 'f list \<Rightarrow> pyval \<Rightarrow> (error + 'f list) \<times> ('g, 'f) mb_model" where
  "mb_model_get_annual_mb mbl ar np c w m heights year =
     (case m of
        Library_model ti \<Rightarrow> (MonthlyTIModel_get_annual_mb mbl ti heights year w, Library_model ti)
      | Notebook_model self \<Rightarrow>
          (let (r, self') = get_annual_mb ar np c heights year self in (r, Notebook_model self')))"

text \<open>
  A model is asked several times: the calibration notebook asks for the years 2000 and
  2003, and the dynamical model of the library asks the model it is given for every
  year of its run. \<open>mb_model_requests\<close> answers a list of requests (heights and a year)
  one after the other, whatever the class of the model; \<open>annual_mb_requests\<close> is the
  same list answered by the \<open>get_annual_mb\<close> of the notebook's class alone.
\<close>

fun mb_model_requests ::
  "'f oggm_massbalance \<Rightarrow> 'f arithmetic \<Rightarrow> ('g, 'f) numpy \<Rightarrow> 'f cfg \<Rightarrow> world
     \<Rightarrow> ('f list \<times> pyval) list \<Rightarrow> ('g, 'f) mb_model
     \<Rightarrow> (error + 'f list) list \<times> ('g, 'f) mb_model" where
  "mb_model_requests mbl ar np c w [] m = ([], m)"
| "mb_model_requests mbl ar np c w ((heights, year) # requests) m =
     (let (r, m') = mb_model_get_annual_mb mbl ar np c w m heights year;
          (rs, m'') = mb_model_requests mbl ar np c w requests m'
      in (r # rs, m''))"

fun annual_mb_requests ::
  "'f arithmetic \<Rightarrow> ('g, 'f) numpy \<Rightarrow> 'f cfg \<Rightarrow> ('f list \<times> pyval) list
     \<Rightarrow> ('g, 'f) RandomLinearMassBalance
     \<Rightarrow> (error + 'f list) list \<times> ('g, 'f) RandomLinearMassBalance" where
  "annual_mb_requests ar np c [] self = ([], self)"
| "annual_mb_requests ar np c ((heights, year) # requests) self =
     (let (r, self') = get_annual_mb ar np c heights year self;
          (rs, self'') = annual_mb_requests ar np c requests self'
      in (r # rs, self''))"

text \<open>
  The models of the sensitivity loop \<open>for melt_factor in [1, 5, 10, 15]\<close> of the
  calibration notebook, built by
  \<open>massbalance.MonthlyTIModel(gdir, temp_bias=0, prcp_fac=1, melt_f=melt_factor)\<close>.
\<close>

definition sensitivity_model :: "string \<Rightarrow> real \<Rightarrow> MonthlyTIModel" where
  "sensitivity_model gdir melt_factor =
     \<lparr>entity = gdir, temp_bias = Some 0, prcp_fac = Some 1, melt_f = Some melt_factor\<rparr>"

definition sensitivity_models :: "string \<Rightarrow> MonthlyTIModel list" where
  "sensitivity_models gdir = map (sensitivity_model gdir) [1, 5, 10, 15]"

text \<open>
  The sensitivity loop: each turn builds a model and asks it for
  \<open>get_specific_mb(fls=fls, year=years)\<close>; the plot is left out. It returns the series,
  melt factor by melt factor.
\<close>

fun sensitivity_loop ::
  "'f oggm_massbalance \<Rightarrow> string \<Rightarrow> int list \<Rightarrow> real list \<Rightarrow> world
     \<Rightarrow> (error + 'f list list) \<times> world" where
  "sensitivity_loop mbl gdir years [] w = (Inr [], w)"
| "sensitivity_loop mbl gdir years (melt_factor # melt_factors) w =
     (case MonthlyTIModel_get_specific_mb mbl (sensitivity_model gdir melt_factor) years w of
        (Inl e, w') \<Rightarrow> (Inl e, w')
      | (Inr mb_ts_new, w') \<Rightarrow>
          (case sensitivity_loop mbl gdir years melt_factors w' of
             (Inl e, w'') \<Rightarrow> (Inl e, w'')
           | (Inr series, w'') \<Rightarrow> (Inr (mb_ts_new # series), w'')))"

subsection \<open>After the inversion loop\<close>






subsection \<open>Initialising the glacier directories\<close>

text \<open>
  The arguments that make \<open>workflow.init_glacier_directories\<close> fetch from the server,
  and the storage it works on: the local files, the entities that have a local
  directory, and the log of what was fetched over the network.
\<close>

record remote_args =
  prepro_base_url :: string
  from_prepro_level :: nat
  prepro_border :: nat

record storage =
  disk :: world
  directories :: "string list"
  fetched :: "(string \<times> remote_args) list"

text \<open>
  Modelled from the spec: \<open>workflow.init_glacier_directories\<close> is a function of the OGGM
  library, which the notebooks only call. Section 4.1 of the specification: the input is
  a list of entity identifiers and optionally a remote source (URL, preprocessing level,
  border); the output is one local handle per identifier; with remote arguments the
  directories are fetched over the network and extracted locally; with none the call is
  a pure local lookup; an unknown identifier or an unavailable artifact is an error of
  the library. \<open>server args g\<close> is the archive the server holds for the entity \<open>g\<close>.
\<close>

definition init_glacier_directories ::
  "(remote_args \<Rightarrow> string \<Rightarrow> (product \<rightharpoonup> dataset) option) \<Rightarrow> string list \<Rightarrow> remote_args option
     \<Rightarrow> storage \<Rightarrow> (error + string list) \<times> storage" where
  "init_glacier_directories server rgi_ids remote s =
     (case remote of
        None \<Rightarrow>
          (if list_all (\<lambda>g. g \<in> set (directories s)) rgi_ids then (Inr rgi_ids, s)
           else (Inl (LibraryError 0), s))
      | Some args \<Rightarrow>
          (if list_all (\<lambda>g. server args g \<noteq> None) rgi_ids
           then (Inr rgi_ids,
                 s\<lparr>disk := (disk s)\<lparr>files :=
                      (\<lambda>(g, name, filesuffix).
                         if g \<in> set rgi_ids
                         then (case server args g of
                                 None \<Rightarrow> None
                               | Some archive \<Rightarrow> archive (name, filesuffix))
                         else files (disk s) (g, name, filesuffix))\<rparr>,
                   directories := rgi_ids @ filter (\<lambda>g. g \<notin> set rgi_ids) (directories s),
                   fetched := fetched s @ map (\<lambda>g. (g, args)) rgi_ids\<rparr>)
           else (Inl (LibraryError 1), s)))"

subsection \<open>A concrete OGGM\<close>

text \<open>
  A library whose tasks write an empty dataset for each product they name and return
  the lengths of the identifiers, whose calibration returns a fixed dictionary and
  writes \<open>mb_calib\<close> only when asked to, and whose calibration from the consensus
  returns the number of entities.
\<close>

definition example_oggm :: "nat oggm" where
  "example_oggm =
     \<lparr>execute_entity_task =
        (\<lambda>t gdirs w.
           (Inr (map length gdirs),
            w\<lparr>files := (\<lambda>(g, prod). if g \<in> set gdirs \<and> prod \<in> set (named_outputs t)
                                     then Some Map.empty else files w (g, prod))\<rparr>)),
      compile_glacier_statistics =
        (\<lambda>gdirs filesuffix inversion_only w.
           (Inr (), w\<lparr>files := (files w)(('''', ''glacier_statistics'', filesuffix) \<mapsto> Map.empty)\<rparr>)),
      mb_calibration_from_scalar_mb =
        (\<lambda>gdir ref_mb write_to_gdir ref_period calibrate_param1 calibrate_param2 w.
           (Inr [''temp_bias'' \<mapsto> 1, ''prcp_fac'' \<mapsto> 2, ''melt_f'' \<mapsto> 7],
            if write_to_gdir
            then w\<lparr>files := (files w)((gdir, ''mb_calib'', '''') \<mapsto> Map.empty)\<rparr>
            else w)),
      calibrate_inversion_from_consensus =
        (\<lambda>gdirs filter_inversion_output apply_fs_on_mismatch w. (Inr (length gdirs), w))\<rparr>"

text \<open>
  The same library but for what its calls return: a different calibrated melt factor,
  and the task results increased by one.
\<close>

definition example_oggm2 :: "nat oggm" where
  "example_oggm2 =
     example_oggm
       \<lparr>execute_entity_task :=
          (\<lambda>t gdirs w.
             (Inr (map (\<lambda>g. Suc (length g)) gdirs),
              snd (execute_entity_task example_oggm t gdirs w))),
        mb_calibration_from_scalar_mb :=
          (\<lambda>gdir ref_mb write_to_gdir ref_period calibrate_param1 calibrate_param2 w.
             (Inr [''temp_bias'' \<mapsto> 1, ''prcp_fac'' \<mapsto> 2, ''melt_f'' \<mapsto> 9],
              snd (mb_calibration_from_scalar_mb example_oggm gdir ref_mb write_to_gdir
                     ref_period calibrate_param1 calibrate_param2 w)))\<rparr>"

text \<open>
  A temperature-index model whose mass balance is \<open>melt_f\<close> at every height and in every
  year (5 when the melt factor is left to the calibration), and one that raises for
  every request.
\<close>

definition example_massbalance :: "real oggm_massbalance" where
  "example_massbalance =
     \<lparr>MonthlyTIModel_get_annual_mb =
        (\<lambda>ti heights year w.
           Inr (map (\<lambda>h. case melt_f ti of None \<Rightarrow> 5 | Some m \<Rightarrow> m) heights)),
      MonthlyTIModel_get_specific_mb =
        (\<lambda>ti years w.
           (Inr (map (\<lambda>y. case melt_f ti of None \<Rightarrow> 5 | Some m \<Rightarrow> m) years), w))\<rparr>"

definition failing_massbalance :: "real oggm_massbalance" where
  "failing_massbalance =
     \<lparr>MonthlyTIModel_get_annual_mb = (\<lambda>ti heights year w. Inl (LibraryError 0)),
      MonthlyTIModel_get_specific_mb = (\<lambda>ti years w. (Inl (LibraryError 0), w))\<rparr>"


text \<open>
  A server that holds one glacier up to preprocessing level 5, the remote arguments of
  the workflow introduction, and a working directory that was just reset.
\<close>

definition example_server :: "remote_args \<Rightarrow> string \<Rightarrow> (product \<rightharpoonup> dataset) option" where
  "example_server args g =
     (if g = ''RGI60-11.00897'' \<and> from_prepro_level args \<le> 5
      then Some [(''climate_historical'', '''') \<mapsto> [''temp'' \<mapsto> [1, 2]],
                 (''gridded_data'', '''') \<mapsto> Map.empty]
      else None)"

definition example_args :: remote_args where
  "example_args =
     \<lparr>prepro_base_url =
        ''https://cluster.klima.uni-bremen.de/~oggm/gdirs/oggm_v1.6/L3-L5_files/2023.1/elev_bands/W5E5'',
      from_prepro_level = 4, prepro_border = 80\<rparr>"

definition empty_storage :: storage where
  "empty_storage = \<lparr>disk = \<lparr>files = Map.empty, handles = []\<rparr>, directories = [], fetched = []\<rparr>"

section \<open>The cache of yearly ELAs\<close>

lemma get_random_ela_h_cache_grows:
  "get_random_ela_h ar np year self = (r, self') \<Longrightarrow>
     ela_h_per_year self \<subseteq>\<^sub>m ela_h_per_year self'"
  by (auto simp: get_random_ela_h_def Let_def map_le_def
           split: sum.splits option.splits prod.splits)

lemma get_annual_mb_cache_grows:
  "get_annual_mb ar np c heights year self = (r, self') \<Longrightarrow>
     ela_h_per_year self \<subseteq>\<^sub>m ela_h_per_year self'"
  by (auto simp: get_annual_mb_def Let_def split: sum.splits option.splits prod.splits
           dest: get_random_ela_h_cache_grows)

lemma call_method_cache_grows:
  "call_method ar np c m self = (r, self') \<Longrightarrow>
     ela_h_per_year self \<subseteq>\<^sub>m ela_h_per_year self'"
  by (cases m)
     (auto split: prod.splits dest: get_random_ela_h_cache_grows get_annual_mb_cache_grows)

lemma call_methods_cache_grows:
  "call_methods ar np c ms self = (rs, self') \<Longrightarrow>
     ela_h_per_year self \<subseteq>\<^sub>m ela_h_per_year self'"
proof (induction ms arbitrary: self rs)
  case Nil
  then show ?case by simp
next
  case (Cons m ms)
  obtain r s1 where s1: "call_method ar np c m self = (r, s1)"
    by (cases "call_method ar np c m self")
  obtain rs' s2 where s2: "call_methods ar np c ms s1 = (rs', s2)"
    by (cases "call_methods ar np c ms s1")
  from Cons.prems s1 s2 have "call_methods ar np c ms s1 = (rs', self')" by simp
  from Cons.IH [OF this] call_method_cache_grows [OF s1] show ?case
    by (blast intro: map_le_trans)
qed

lemma get_random_ela_h_cached:
  "py_int year = Inr k \<Longrightarrow> ela_h_per_year self k = Some v \<Longrightarrow>
     get_random_ela_h ar np year self = (Inr v, self)"
  by (simp add: get_random_ela_h_def)

lemma get_random_ela_h_fixes:
  "py_int year = Inr k \<Longrightarrow> get_random_ela_h ar np year self = (r, self') \<Longrightarrow>
     \<exists>v. r = Inr v \<and> ela_h_per_year self' k = Some v"
  by (auto simp: get_random_ela_h_def Let_def split: option.splits prod.splits)

text \<open>
  C8. \<open>get_random_ela_h\<close> is idempotent per year: a call whose argument truncates to the
  integer year \<open>k\<close> returns a value \<open>v\<close> and leaves it in the cache under \<open>k\<close>; after any
  further sequence of method calls, for whatever years, a call whose argument truncates
  to \<open>k\<close> returns \<open>v\<close> again and changes nothing. The cache only grows: every entry of
  the cache before a call, or a sequence of calls, is still there with the same value.
\<close>

theorem get_random_ela_h_idempotent_per_year:
  assumes "py_int year = Inr k"
    and "get_random_ela_h ar np year self = (r, self1)"
    and "call_methods ar np c ms self1 = (rs, self2)"
    and "py_int year' = Inr k"
  shows "\<exists>v. r = Inr v
           \<and> ela_h_per_year self1 k = Some v
           \<and> get_random_ela_h ar np year' self2 = (Inr v, self2)
           \<and> ela_h_per_year self \<subseteq>\<^sub>m ela_h_per_year self1
           \<and> ela_h_per_year self1 \<subseteq>\<^sub>m ela_h_per_year self2"
proof -
  from get_random_ela_h_fixes [OF assms(1,2)]
  obtain v where v: "r = Inr v" "ela_h_per_year self1 k = Some v" by blast
  have grows: "ela_h_per_year self1 \<subseteq>\<^sub>m ela_h_per_year self2"
    by (rule call_methods_cache_grows [OF assms(3)])
  from v(2) grows have "ela_h_per_year self2 k = Some v"
    by (metis domI map_le_def)
  then have "get_random_ela_h ar np year' self2 = (Inr v, self2)"
    by (rule get_random_ela_h_cached [OF assms(4)])
  with v grows get_random_ela_h_cache_grows [OF assms(2)] show ?thesis by blast
qed

theorem get_random_ela_h_idempotent_per_year_witness:
  "py_int (PyInt 2000) = Inr 2000
   \<and> py_int (PyFloat (4001 / 2)) = Inr 2000
   \<and> fst (get_random_ela_h exact_arithmetic example_numpy (PyInt 2000) example_mb_model) = Inr 3100
   \<and> fst (get_random_ela_h exact_arithmetic example_numpy (PyFloat (4001 / 2))
        (snd (call_methods exact_arithmetic example_numpy example_cfg
               [Call_get_annual_mb [3400] (PyInt 2001), Call_get_random_ela_h (PyInt 1999)]
               (snd (get_random_ela_h exact_arithmetic example_numpy (PyInt 2000) example_mb_model)))))
       = Inr 3100"
proof -
  let ?s1 = "snd (get_random_ela_h exact_arithmetic example_numpy (PyInt 2000) example_mb_model)"
  let ?ms = "[Call_get_annual_mb [3400] (PyInt 2001), Call_get_random_ela_h (PyInt 1999)]"
  let ?s2 = "snd (call_methods exact_arithmetic example_numpy example_cfg ?ms ?s1)"
  have h1: "py_int (PyInt 2000) = Inr 2000"
    by (simp add: py_int_def)
  have h4: "py_int (PyFloat (4001 / 2)) = Inr 2000"
    by (simp add: py_int_def)
  have first: "fst (get_random_ela_h exact_arithmetic example_numpy (PyInt 2000) example_mb_model) = Inr 3100"
    by (simp add: get_random_ela_h_def py_int_def exact_arithmetic_def example_numpy_def
          example_mb_model_def)
  from get_random_ela_h_idempotent_per_year
         [OF h1 surjective_pairing surjective_pairing h4,
          where ar = exact_arithmetic and np = example_numpy and self = example_mb_model
            and c = example_cfg and ms = ?ms]
  obtain v where v: "fst (get_random_ela_h exact_arithmetic example_numpy (PyInt 2000) example_mb_model) = Inr v"
    "get_random_ela_h exact_arithmetic example_numpy (PyFloat (4001 / 2)) ?s2 = (Inr v, ?s2)"
    by blast
  from v(1) first have "v = 3100" by simp
  with v(2) have "fst (get_random_ela_h exact_arithmetic example_numpy (PyFloat (4001 / 2)) ?s2) = Inr 3100"
    by simp
  with h1 h4 first show ?thesis by blast
qed

section \<open>The annual mass balance\<close>

lemma get_random_ela_h_keeps_params:
  "get_random_ela_h ar np year self = (r, self') \<Longrightarrow>
     self' = self\<lparr>rng := rng self', ela_h_per_year := ela_h_per_year self'\<rparr>"
  by (auto simp: get_random_ela_h_def Let_def split: sum.splits option.splits prod.splits)

lemma get_annual_mb_keeps_params:
  "get_annual_mb ar np c heights year self = (r, self') \<Longrightarrow>
     self' = self\<lparr>rng := rng self', ela_h_per_year := ela_h_per_year self'\<rparr>"
  by (auto simp: get_annual_mb_def Let_def split: sum.splits option.splits prod.splits
           dest: get_random_ela_h_keeps_params)

lemma get_random_ela_h_grad:
  assumes "get_random_ela_h ar np year self = (r, self')"
  shows "grad self' = grad self"
proof -
  from get_random_ela_h_keeps_params [OF assms]
  have "grad self' = grad (self\<lparr>rng := rng self', ela_h_per_year := ela_h_per_year self'\<rparr>)"
    by simp
  then show ?thesis by simp
qed

lemma get_annual_mb_value:
  assumes "py_int year = Inr k"
    and "PARAMS c ''ice_density'' = Some d"
  shows "\<exists>ela_h self'.
           get_random_ela_h ar np year self = (Inr ela_h, self')
         \<and> get_random_ela_h ar np year self' = (Inr ela_h, self')
         \<and> get_annual_mb ar np c heights year self =
             (Inr (map (\<lambda>h. fdiv ar (fdiv ar (fmul ar (fsub ar h ela_h) (grad self))
                                            (SEC_IN_YEAR c)) d) heights),
              self')"
proof -
  obtain r self' where call: "get_random_ela_h ar np year self = (r, self')"
    by (cases "get_random_ela_h ar np year self")
  from get_random_ela_h_fixes [OF assms(1) call]
  obtain ela_h where ela: "r = Inr ela_h" "ela_h_per_year self' k = Some ela_h" by blast
  have again: "get_random_ela_h ar np year self' = (Inr ela_h, self')"
    by (rule get_random_ela_h_cached [OF assms(1) ela(2)])
  have g: "grad self' = grad self"
    by (rule get_random_ela_h_grad [OF call])
  have "get_annual_mb ar np c heights year self =
          (Inr (map (\<lambda>h. fdiv ar (fdiv ar (fmul ar (fsub ar h ela_h) (grad self))
                                         (SEC_IN_YEAR c)) d) heights),
           self')"
    using call ela(1) assms(2) g by (simp add: get_annual_mb_def comp_def)
  with call ela(1) again show ?thesis by blast
qed

text \<open>
  C1, as stated, fails: the operation is not defined for every year. \<open>year=None\<close> is
  the default of the method, and a call that leaves the year out raises the
  \<open>TypeError\<close> of \<open>int(None)\<close> instead of returning rates.
\<close>

theorem get_annual_mb_without_year_raises:
  "get_annual_mb symbolic_arithmetic symbolic_numpy symbolic_cfg [Num 3100, Num 3400] PyNone
     symbolic_mb_model
     = (Inl TypeError, symbolic_mb_model)"
  by (simp add: get_annual_mb_def get_random_ela_h_def py_int_def)

text \<open>
  C1, amended. For every array of heights and every year that \<open>int()\<close> accepts (an int
  or a finite float), under a configuration that holds an ice density,
  \<open>get_annual_mb(heights, year)\<close> returns one rate for each height \<open>h\<close>: the float
  \<open>((h - ela_h) * grad) / SEC_IN_YEAR / ice_density\<close>, computed by these four float
  operations in this order, where \<open>ela_h\<close> is the ELA that \<open>get_random_ela_h\<close> returns
  for that year, at this call and at every later one. Nothing is assumed of the float
  arithmetic, so the statement holds of binary64 with its rounding.
\<close>

theorem get_annual_mb_rates:
  assumes "py_int year = Inr k"
    and "PARAMS c ''ice_density'' = Some d"
  shows "\<exists>ela_h self' mb.
           get_random_ela_h ar np year self = (Inr ela_h, self')
         \<and> get_annual_mb ar np c heights year self = (Inr mb, self')
         \<and> get_random_ela_h ar np year self' = (Inr ela_h, self')
         \<and> mb = map (\<lambda>h. fdiv ar (fdiv ar (fmul ar (fsub ar h ela_h) (grad self))
                                        (SEC_IN_YEAR c)) d) heights
         \<and> length mb = length heights"
proof -
  from get_annual_mb_value [OF assms, of ar np self heights]
  obtain ela_h self' where
    v: "get_random_ela_h ar np year self = (Inr ela_h, self')"
      "get_random_ela_h ar np year self' = (Inr ela_h, self')"
      "get_annual_mb ar np c heights year self =
         (Inr (map (\<lambda>h. fdiv ar (fdiv ar (fmul ar (fsub ar h ela_h) (grad self))
                                        (SEC_IN_YEAR c)) d) heights),
          self')"
    by blast
  then show ?thesis by simp
qed

theorem get_annual_mb_rates_witness:
  "py_int (PyFloat (4001 / 2)) = Inr 2000
   \<and> PARAMS symbolic_cfg ''ice_density'' = Some (Num 900)
   \<and> fst (get_random_ela_h symbolic_arithmetic symbolic_numpy (PyFloat (4001 / 2))
            symbolic_mb_model)
       = Inr (Add (Num 3000) (Mul (Num 1) (Num 100)))
   \<and> fst (get_annual_mb symbolic_arithmetic symbolic_numpy symbolic_cfg [Num 3100, Num 3400]
            (PyFloat (4001 / 2)) symbolic_mb_model)
       = Inr [Div (Div (Mul (Sub (Num 3100) (Add (Num 3000) (Mul (Num 1) (Num 100)))) (Num 3))
                       (Num 31536000)) (Num 900),
              Div (Div (Mul (Sub (Num 3400) (Add (Num 3000) (Mul (Num 1) (Num 100)))) (Num 3))
                       (Num 31536000)) (Num 900)]"
proof -
  have h1: "py_int (PyFloat (4001 / 2)) = Inr 2000"
    by (simp add: py_int_def)
  have h2: "PARAMS symbolic_cfg ''ice_density'' = Some (Num 900)"
    by (simp add: symbolic_cfg_def)
  have first: "fst (get_random_ela_h symbolic_arithmetic symbolic_numpy (PyFloat (4001 / 2))
                      symbolic_mb_model)
                 = Inr (Add (Num 3000) (Mul (Num 1) (Num 100)))"
    by (simp add: get_random_ela_h_def py_int_def Let_def symbolic_arithmetic_def
          symbolic_numpy_def symbolic_mb_model_def)
  from get_annual_mb_rates
         [OF h1 h2, where ar = symbolic_arithmetic and np = symbolic_numpy
            and self = symbolic_mb_model and heights = "[Num 3100, Num 3400]"]
  obtain ela_h self' mb where
    r: "get_random_ela_h symbolic_arithmetic symbolic_numpy (PyFloat (4001 / 2))
          symbolic_mb_model = (Inr ela_h, self')"
      "get_annual_mb symbolic_arithmetic symbolic_numpy symbolic_cfg [Num 3100, Num 3400]
         (PyFloat (4001 / 2)) symbolic_mb_model = (Inr mb, self')"
      "mb = map (\<lambda>h. fdiv symbolic_arithmetic
                        (fdiv symbolic_arithmetic
                           (fmul symbolic_arithmetic (fsub symbolic_arithmetic h ela_h)
                              (grad symbolic_mb_model))
                           (SEC_IN_YEAR symbolic_cfg)) (Num 900))
              [Num 3100, Num 3400]"
    by blast
  from r(1) first have "ela_h = Add (Num 3000) (Mul (Num 1) (Num 100))" by simp
  with r(3) have
    "mb = [Div (Div (Mul (Sub (Num 3100) (Add (Num 3000) (Mul (Num 1) (Num 100)))) (Num 3))
                    (Num 31536000)) (Num 900),
           Div (Div (Mul (Sub (Num 3400) (Add (Num 3000) (Mul (Num 1) (Num 100)))) (Num 3))
                    (Num 31536000)) (Num 900)]"
    by (simp add: symbolic_arithmetic_def symbolic_mb_model_def symbolic_cfg_def)
  with r(2) first h1 h2 show ?thesis by simp
qed

text \<open>
  In the arithmetic of the real numbers, with a non-zero \<open>SEC_IN_YEAR\<close> and a non-zero
  density, the rate is linear in the height with slope
  \<open>grad / (SEC_IN_YEAR * ice_density)\<close>, it is zero at the ELA, and only there when
  \<open>grad\<close> is not zero. Floats only approximate this: they round, a small rate
  underflows to zero away from the ELA, and a zero density gives \<open>inf\<close> or \<open>nan\<close>.
\<close>

lemma get_annual_mb_linear_in_exact_arithmetic:
  assumes "py_int year = Inr k"
    and "PARAMS c ''ice_density'' = Some d"
    and "SEC_IN_YEAR c \<noteq> 0"
    and "d \<noteq> 0"
  shows "\<exists>ela_h self' mb.
           get_random_ela_h exact_arithmetic np year self = (Inr ela_h, self')
         \<and> get_annual_mb exact_arithmetic np c heights year self = (Inr mb, self')
         \<and> length mb = length heights
         \<and> (\<forall>i < length heights.
               mb ! i = grad self / (SEC_IN_YEAR c * d) * (heights ! i - ela_h)
             \<and> (heights ! i = ela_h \<longrightarrow> mb ! i = 0)
             \<and> (grad self \<noteq> 0 \<longrightarrow> mb ! i = 0 \<longrightarrow> heights ! i = ela_h))"
proof -
  from get_annual_mb_value [OF assms(1,2), of exact_arithmetic np self heights]
  obtain ela_h self' where
    v: "get_random_ela_h exact_arithmetic np year self = (Inr ela_h, self')"
      "get_annual_mb exact_arithmetic np c heights year self =
         (Inr (map (\<lambda>h. (h - ela_h) * grad self / SEC_IN_YEAR c / d) heights), self')"
    by (auto simp: exact_arithmetic_def)
  have "\<forall>i < length heights.
       map (\<lambda>h. (h - ela_h) * grad self / SEC_IN_YEAR c / d) heights ! i
         = grad self / (SEC_IN_YEAR c * d) * (heights ! i - ela_h)
     \<and> (heights ! i = ela_h \<longrightarrow>
          map (\<lambda>h. (h - ela_h) * grad self / SEC_IN_YEAR c / d) heights ! i = 0)
     \<and> (grad self \<noteq> 0 \<longrightarrow>
          map (\<lambda>h. (h - ela_h) * grad self / SEC_IN_YEAR c / d) heights ! i = 0 \<longrightarrow>
          heights ! i = ela_h)"
    using assms(3,4) by simp
  with v show ?thesis by simp
qed

section \<open>The constructor and the entity directory\<close>

lemma with_dataset_world: "snd (with_dataset p body w) = w"
  by (simp add: with_dataset_def Let_def split: option.splits)

lemma with_dataset_result:
  "fst (with_dataset p body w) =
     (case files w p of None \<Rightarrow> Inl (FileNotFoundError p) | Some ds \<Rightarrow> body ds)"
  by (simp add: with_dataset_def Let_def split: option.splits)

lemma RandomLinearMassBalance_init_world:
  "snd (RandomLinearMassBalance_init np entropy gdir grad0 sigma_ela0 seed w) = w"
proof -
  let ?p = "get_filepath gdir ''gridded_data'' ''''"
  obtain r w' where o: "with_dataset ?p read_grids w = (r, w')"
    by (cases "with_dataset ?p read_grids w")
  with with_dataset_world [of ?p read_grids w] have "w' = w" by simp
  with o show ?thesis
    by (simp add: RandomLinearMassBalance_init_def split: sum.splits prod.splits)
qed

lemma RandomLinearMassBalance_init_reads_grids_only:
  assumes "files w1 (get_filepath gdir ''gridded_data'' '''')
             = files w2 (get_filepath gdir ''gridded_data'' '''')"
  shows "fst (RandomLinearMassBalance_init np e1 gdir grad0 sigma_ela0 (Some n) w1)
           = fst (RandomLinearMassBalance_init np e2 gdir grad0 sigma_ela0 (Some n) w2)"
proof -
  let ?p = "get_filepath gdir ''gridded_data'' ''''"
  have "fst (with_dataset ?p read_grids w1) = fst (with_dataset ?p read_grids w2)"
    using assms by (simp add: with_dataset_result)
  then show ?thesis
    by (cases "with_dataset ?p read_grids w1"; cases "with_dataset ?p read_grids w2")
       (simp add: RandomLinearMassBalance_init_def RandomState_def
             split: sum.splits prod.splits)
qed

text \<open>
  C9. Two instances constructed for the same glacier from the same gridded data, with
  equal \<open>grad\<close> and \<open>sigma_ela\<close> and the same integer seed, give the same results for
  the same sequence of \<open>get_random_ela_h\<close> and \<open>get_annual_mb\<close> calls under the same
  configuration, whatever the operating system's entropy at either construction and
  whatever else the two worlds hold.
\<close>

theorem seeded_instances_return_equal_results:
  assumes "files w1 (get_filepath gdir ''gridded_data'' '''')
             = files w2 (get_filepath gdir ''gridded_data'' '''')"
  shows "fst (construct_and_call ar np c e1 gdir grad0 sigma_ela0 (Some n) ms w1)
           = fst (construct_and_call ar np c e2 gdir grad0 sigma_ela0 (Some n) ms w2)"
proof -
  let ?i1 = "RandomLinearMassBalance_init np e1 gdir grad0 sigma_ela0 (Some n) w1"
  let ?i2 = "RandomLinearMassBalance_init np e2 gdir grad0 sigma_ela0 (Some n) w2"
  have "fst ?i1 = fst ?i2"
    by (rule RandomLinearMassBalance_init_reads_grids_only [OF assms])
  then show ?thesis
    by (cases ?i1; cases ?i2) (simp add: construct_and_call_def split: sum.splits)
qed

theorem seeded_instances_return_equal_results_witness:
  "files example_world (get_filepath ''RGI60-11.00897'' ''gridded_data'' '''')
     = files (example_world\<lparr>handles := [(''RGI60-11.00897'', ''dem'', '''')]\<rparr>)
         (get_filepath ''RGI60-11.00897'' ''gridded_data'' '''')
   \<and> fst (construct_and_call exact_arithmetic example_numpy example_cfg 5 ''RGI60-11.00897'' 3 100 (Some 2)
          [Call_get_annual_mb [3100, 3400] (PyInt 2000), Call_get_random_ela_h (PyInt 2001)]
          example_world)
       = Inr [Ret_annual_mb (Inr [0, 1 / 31536000]), Ret_ela_h (Inr 3200)]
   \<and> fst (construct_and_call exact_arithmetic example_numpy example_cfg 7 ''RGI60-11.00897'' 3 100 (Some 2)
          [Call_get_annual_mb [3100, 3400] (PyInt 2000), Call_get_random_ela_h (PyInt 2001)]
          (example_world\<lparr>handles := [(''RGI60-11.00897'', ''dem'', '''')]\<rparr>))
       = Inr [Ret_annual_mb (Inr [0, 1 / 31536000]), Ret_ela_h (Inr 3200)]"
proof -
  let ?w2 = "example_world\<lparr>handles := [(''RGI60-11.00897'', ''dem'', '''')]\<rparr>"
  let ?ms = "[Call_get_annual_mb [3100, 3400] (PyInt 2000), Call_get_random_ela_h (PyInt 2001)]"
  have h: "files example_world (get_filepath ''RGI60-11.00897'' ''gridded_data'' '''')
             = files ?w2 (get_filepath ''RGI60-11.00897'' ''gridded_data'' '''')"
    by simp
  have one: "fst (construct_and_call exact_arithmetic example_numpy example_cfg 5 ''RGI60-11.00897'' 3 100
                    (Some 2) ?ms example_world)
               = Inr [Ret_annual_mb (Inr [0, 1 / 31536000]), Ret_ela_h (Inr 3200)]"
    by (simp add: construct_and_call_def RandomLinearMassBalance_init_def RandomState_def
          with_dataset_def read_grids_def variable_def mask_select_def get_filepath_def
          get_annual_mb_def get_random_ela_h_def py_int_def exact_arithmetic_def
          example_numpy_def example_cfg_def example_world_def)
  from seeded_instances_return_equal_results
         [OF h, where ar = exact_arithmetic and np = example_numpy and c = example_cfg
            and ?e1.0 = 5 and ?grad0.0 = 3 and ?sigma_ela0.0 = 100 and n = 2 and ms = ?ms
            and ?e2.0 = 7] one
  have "fst (construct_and_call exact_arithmetic example_numpy example_cfg 7 ''RGI60-11.00897'' 3 100
               (Some 2) ?ms ?w2)
          = Inr [Ret_annual_mb (Inr [0, 1 / 31536000]), Ret_ela_h (Inr 3200)]"
    by simp
  with h one show ?thesis by blast
qed

text \<open>
  C10. Constructing a \<open>RandomLinearMassBalance\<close> and calling its methods leaves the world
  as it was: the same files with the same contents and the same open handles (the
  gridded data are only read, and their handle is released before the constructor
  returns, also when it raises). A method call changes nothing of the instance but the
  generator and the cache of yearly ELAs.
\<close>

theorem RandomLinearMassBalance_leaves_directory_unchanged:
  "snd (RandomLinearMassBalance_init np entropy gdir grad0 sigma_ela0 seed w) = w
   \<and> snd (construct_and_call ar np c entropy gdir grad0 sigma_ela0 seed ms w) = w
   \<and> snd (get_random_ela_h ar np year self)
       = self\<lparr>rng := rng (snd (get_random_ela_h ar np year self)),
              ela_h_per_year := ela_h_per_year (snd (get_random_ela_h ar np year self))\<rparr>
   \<and> snd (get_annual_mb ar np c heights year self)
       = self\<lparr>rng := rng (snd (get_annual_mb ar np c heights year self)),
              ela_h_per_year := ela_h_per_year (snd (get_annual_mb ar np c heights year self))\<rparr>"
proof -
  let ?i = "RandomLinearMassBalance_init np entropy gdir grad0 sigma_ela0 seed w"
  have init: "snd ?i = w"
    by (rule RandomLinearMassBalance_init_world)
  then have session: "snd (construct_and_call ar np c entropy gdir grad0 sigma_ela0 seed ms w) = w"
    by (cases ?i) (simp add: construct_and_call_def split: sum.splits)
  have ela: "snd (get_random_ela_h ar np year self)
       = self\<lparr>rng := rng (snd (get_random_ela_h ar np year self)),
              ela_h_per_year := ela_h_per_year (snd (get_random_ela_h ar np year self))\<rparr>"
    by (rule get_random_ela_h_keeps_params [OF surjective_pairing])
  have mb: "snd (get_annual_mb ar np c heights year self)
       = self\<lparr>rng := rng (snd (get_annual_mb ar np c heights year self)),
              ela_h_per_year := ela_h_per_year (snd (get_annual_mb ar np c heights year self))\<rparr>"
    by (rule get_annual_mb_keeps_params [OF surjective_pairing])
  from init session ela mb show ?thesis by blast
qed

text \<open>
  Without a seed the generator starts from the entropy of the operating system, and two
  instances of the same glacier may disagree already on the first ELA.
\<close>

lemma unseeded_instances_may_differ:
  "fst (construct_and_call exact_arithmetic example_numpy example_cfg 5 ''RGI60-11.00897'' 3 100 None
          [Call_get_random_ela_h (PyInt 2000)] example_world)
     \<noteq> fst (construct_and_call exact_arithmetic example_numpy example_cfg 7 ''RGI60-11.00897'' 3 100 None
              [Call_get_random_ela_h (PyInt 2000)] example_world)"
  by (simp add: construct_and_call_def RandomLinearMassBalance_init_def RandomState_def
        with_dataset_def read_grids_def variable_def mask_select_def get_filepath_def
        get_random_ela_h_def py_int_def exact_arithmetic_def example_numpy_def
        example_world_def)

section \<open>Datasets opened by the notebooks\<close>

lemma open_volume_km3_world: "snd (open_volume_km3 p w) = w"
  by (simp add: open_volume_km3_def with_dataset_world)

lemma plot_scenarios_world: "snd (plot_scenarios gdir member ssps w) = w"
proof (induction ssps)
  case Nil
  then show ?case by simp
next
  case (Cons ssp ssps)
  let ?p = "get_filepath gdir ''model_diagnostics'' (rid member ssp)"
  from open_volume_km3_world [of ?p w] Cons.IH show ?case
    by (cases "open_volume_km3 ?p w"; cases "plot_scenarios gdir member ssps w")
       (auto split: sum.splits)
qed

text \<open>
  C7. Every dataset the repository opens is opened by a \<open>with\<close> block, and the handle
  does not outlive the block: after reading a product (\<open>open_and_load\<close>), after taking
  the volume of a run, after the whole plotting loop and after the constructor of
  \<open>RandomLinearMassBalance\<close>, the open handles are those that were open before, whether
  the block ended normally or by an exception.
\<close>

theorem dataset_handles_are_released:
  "handles (snd (open_and_load p w)) = handles w
   \<and> handles (snd (open_volume_km3 p w)) = handles w
   \<and> handles (snd (plot_scenarios gdir member ssps w)) = handles w
   \<and> handles (snd (RandomLinearMassBalance_init np entropy gdir grad0 sigma_ela0 seed w))
       = handles w"
  by (simp add: open_and_load_def open_volume_km3_world with_dataset_world
        plot_scenarios_world RandomLinearMassBalance_init_world)

section \<open>The order of the tasks\<close>

text \<open>
  In each turn of the scenario loop the call that writes \<open>gcm_data\<close> with the suffix of
  the scenario comes before the run that reads \<open>gcm_data\<close> with that suffix, and the
  loop is the three turns in the order of the scenarios.
\<close>

lemma gcm_data_is_written_before_it_is_read:
  "\<exists>processing.
     scenario_tasks member ssp =
       [processing,
        run_from_climate_data ''gcm_data'' (rid member ssp) ''_historical'' (rid member ssp)]
     \<and> named_outputs processing = [(''gcm_data'', rid member ssp)]"
  by (simp add: scenario_tasks_def)

lemma run_all_scenarios_turns:
  "run_all_scenarios member =
     scenario_tasks member ''ssp126'' @ scenario_tasks member ''ssp370''
       @ scenario_tasks member ''ssp585''"
  by (simp add: run_all_scenarios_def)

section \<open>Failures\<close>







lemma sensitivity_loop_calls:
  "forget_returns (sensitivity_loop mbl gdir years melt_factors w) =
     run_calls
       (map (\<lambda>melt_factor w.
               forget_returns
                 (MonthlyTIModel_get_specific_mb mbl (sensitivity_model gdir melt_factor) years w))
            melt_factors) w"
proof (induction melt_factors arbitrary: w)
  case Nil
  then show ?case by (simp add: forget_returns_def)
next
  case (Cons melt_factor melt_factors)
  let ?m = "sensitivity_model gdir melt_factor"
  obtain r w1 where o: "MonthlyTIModel_get_specific_mb mbl ?m years w = (r, w1)"
    by (cases "MonthlyTIModel_get_specific_mb mbl ?m years w")
  obtain r2 w2 where l: "sensitivity_loop mbl gdir years melt_factors w1 = (r2, w2)"
    by (cases "sensitivity_loop mbl gdir years melt_factors w1")
  from Cons.IH [of w1] l o show ?case
    by (cases r; cases r2) (simp_all add: forget_returns_def)
qed












section \<open>What a task returns\<close>

lemma execute_tasks_forget:
  assumes "\<forall>t gdirs w. forget_returns (execute_entity_task lib1 t gdirs w)
                        = forget_returns (execute_entity_task lib2 t gdirs w)"
  shows "execute_tasks lib1 ts gdirs w = execute_tasks lib2 ts gdirs w"
proof (induction ts arbitrary: w)
  case Nil
  then show ?case by simp
next
  case (Cons t ts)
  from assms have "forget_returns (execute_entity_task lib1 t gdirs w)
                     = forget_returns (execute_entity_task lib2 t gdirs w)"
    by blast
  then show ?case
    by (cases "execute_entity_task lib1 t gdirs w"; cases "execute_entity_task lib2 t gdirs w")
       (auto simp: forget_returns_def Cons.IH split: sum.splits)
qed

lemma another_optimum_passes_return:
  assumes "mb_calibration_from_scalar_mb lib gdir reference_mb False
             ''2000-01-01_2019-31-12'' ''melt_f'' ''temp_bias'' w = (Inr optimal_params_2, w')"
    and "optimal_params_2 ''temp_bias'' = Some tb"
    and "optimal_params_2 ''prcp_fac'' = Some pf"
    and "optimal_params_2 ''melt_f'' = Some mf"
  shows "another_optimum lib gdir reference_mb w =
           (Inr \<lparr>entity = gdir, temp_bias = Some tb, prcp_fac = Some pf, melt_f = Some mf\<rparr>, w')"
  using assms by (simp add: another_optimum_def getitem_def)

text \<open>
  C3, as stated, fails: the calibration notebook calls the task
  \<open>mb_calibration_from_scalar_mb\<close> with \<open>write_to_gdir=False\<close> and relies on what it
  returns. Under two libraries that both leave the world untouched and differ only in
  the dictionary the task returns, the model the caller builds has different melt
  factors: the result went from the task to its caller in memory.
\<close>

theorem calibration_result_passed_in_memory:
  "snd (another_optimum example_oggm ''RGI60-14.05446'' (- 100) example_world) = example_world
   \<and> snd (another_optimum example_oggm2 ''RGI60-14.05446'' (- 100) example_world) = example_world
   \<and> fst (another_optimum example_oggm ''RGI60-14.05446'' (- 100) example_world)
       = Inr \<lparr>entity = ''RGI60-14.05446'', temp_bias = Some 1, prcp_fac = Some 2, melt_f = Some 7\<rparr>
   \<and> fst (another_optimum example_oggm2 ''RGI60-14.05446'' (- 100) example_world)
       = Inr \<lparr>entity = ''RGI60-14.05446'', temp_bias = Some 1, prcp_fac = Some 2, melt_f = Some 9\<rparr>"
  by (simp add: another_optimum_def getitem_def example_oggm_def example_oggm2_def)

text \<open>
  C3, amended. A cell that runs tasks through \<open>workflow.execute_entity_task\<close> drops what
  the calls return: under two libraries whose calls raise the same errors and leave the
  same worlds, whatever they return, the cell ends the same way. The task
  \<open>mb_calibration_from_scalar_mb\<close>, called directly with \<open>write_to_gdir=False\<close>, hands its
  result over in memory: the caller builds its \<open>MonthlyTIModel\<close> from the entries
  \<open>temp_bias\<close>, \<open>prcp_fac\<close> and \<open>melt_f\<close> of the returned dictionary.
\<close>

theorem task_results_by_storage_or_return:
  assumes "\<forall>t gdirs w. forget_returns (execute_entity_task lib1 t gdirs w)
                        = forget_returns (execute_entity_task lib2 t gdirs w)"
    and "mb_calibration_from_scalar_mb lib gdir reference_mb False
             ''2000-01-01_2019-31-12'' ''melt_f'' ''temp_bias'' w = (Inr optimal_params_2, w')"
    and "optimal_params_2 ''temp_bias'' = Some tb"
    and "optimal_params_2 ''prcp_fac'' = Some pf"
    and "optimal_params_2 ''melt_f'' = Some mf"
  shows "execute_tasks lib1 ts gdirs w0 = execute_tasks lib2 ts gdirs w0
       \<and> another_optimum lib gdir reference_mb w =
           (Inr \<lparr>entity = gdir, temp_bias = Some tb, prcp_fac = Some pf, melt_f = Some mf\<rparr>, w')"
  using execute_tasks_forget [OF assms(1)] another_optimum_passes_return [OF assms(2-5)]
  by simp

theorem task_results_by_storage_or_return_witness:
  "(\<forall>t gdirs w. forget_returns (execute_entity_task example_oggm t gdirs w)
                 = forget_returns (execute_entity_task example_oggm2 t gdirs w))
   \<and> execute_entity_task example_oggm gridded_attributes [''RGI60-14.05446''] example_world
       \<noteq> execute_entity_task example_oggm2 gridded_attributes [''RGI60-14.05446''] example_world
   \<and> execute_tasks example_oggm (run_all_scenarios ''mri-esm2-0_r1i1p1f1'') [''RGI60-11.00897'']
         example_world
       = execute_tasks example_oggm2 (run_all_scenarios ''mri-esm2-0_r1i1p1f1'')
           [''RGI60-11.00897''] example_world
   \<and> another_optimum example_oggm2 ''RGI60-14.05446'' (- 100) example_world
       = (Inr \<lparr>entity = ''RGI60-14.05446'', temp_bias = Some 1, prcp_fac = Some 2,
               melt_f = Some 9\<rparr>, example_world)"
proof -
  have h1: "\<forall>t gdirs w. forget_returns (execute_entity_task example_oggm t gdirs w)
                 = forget_returns (execute_entity_task example_oggm2 t gdirs w)"
    by (simp add: forget_returns_def example_oggm_def example_oggm2_def)
  have h2: "mb_calibration_from_scalar_mb example_oggm2 ''RGI60-14.05446'' (- 100) False
             ''2000-01-01_2019-31-12'' ''melt_f'' ''temp_bias'' example_world
            = (Inr [''temp_bias'' \<mapsto> 1, ''prcp_fac'' \<mapsto> 2, ''melt_f'' \<mapsto> 9], example_world)"
    by (simp add: example_oggm_def example_oggm2_def)
  have h3: "[''temp_bias'' \<mapsto> 1, ''prcp_fac'' \<mapsto> 2, ''melt_f'' \<mapsto> (9::real)] ''temp_bias'' = Some 1"
    by simp
  have h4: "[''temp_bias'' \<mapsto> 1, ''prcp_fac'' \<mapsto> 2, ''melt_f'' \<mapsto> (9::real)] ''prcp_fac'' = Some 2"
    by simp
  have h5: "[''temp_bias'' \<mapsto> 1, ''prcp_fac'' \<mapsto> 2, ''melt_f'' \<mapsto> (9::real)] ''melt_f'' = Some 9"
    by simp
  have differ:
    "execute_entity_task example_oggm gridded_attributes [''RGI60-14.05446''] example_world
       \<noteq> execute_entity_task example_oggm2 gridded_attributes [''RGI60-14.05446''] example_world"
    by (simp add: example_oggm_def example_oggm2_def)
  from task_results_by_storage_or_return [OF h1 h2 h3 h4 h5,
         of "run_all_scenarios ''mri-esm2-0_r1i1p1f1''" "[''RGI60-11.00897'']" example_world]
    h1 differ
  show ?thesis by blast
qed

section \<open>Who computes the mass balance\<close>

lemma mb_model_requests_library:
  "mb_model_requests mbl ar np c w requests (Library_model ti) =
     (map (\<lambda>(heights, year). MonthlyTIModel_get_annual_mb mbl ti heights year w) requests,
      Library_model ti)"
  by (induction requests) (auto simp: mb_model_get_annual_mb_def)

lemma mb_model_requests_notebook:
  "mb_model_requests mbl ar np c w requests (Notebook_model self) =
     (fst (annual_mb_requests ar np c requests self),
      Notebook_model (snd (annual_mb_requests ar np c requests self)))"
proof (induction requests arbitrary: self)
  case Nil
  then show ?case by simp
next
  case (Cons request requests)
  obtain heights year where request: "request = (heights, year)"
    by (cases request)
  obtain r self' where first: "get_annual_mb ar np c heights year self = (r, self')"
    by (cases "get_annual_mb ar np c heights year self")
  show ?case
    by (simp add: request first mb_model_get_annual_mb_def Cons.IH [of self']
             split: prod.splits)
qed

lemma sensitivity_models_loop:
  "map (\<lambda>ti w. forget_returns (MonthlyTIModel_get_specific_mb mbl ti years w))
       (sensitivity_models gdir)
     = map (\<lambda>melt_factor w.
              forget_returns
                (MonthlyTIModel_get_specific_mb mbl (sensitivity_model gdir melt_factor) years w))
         [1, 5, 10, 15]"
  by (simp add: sensitivity_models_def)

text \<open>
  C2, as stated, fails: the last notebook defines its own model and asks it for a mass
  balance. With a library whose temperature-index model raises for every request, the
  instance of \<open>RandomLinearMassBalance\<close> still returns the rates, those that the
  \<open>get_annual_mb\<close> of the notebook computes, while a \<open>MonthlyTIModel\<close> raises: the
  mapping of the notebook's object is not the library's.
\<close>

theorem notebook_model_computes_its_own_mass_balance:
  "fst (mb_model_get_annual_mb failing_massbalance exact_arithmetic example_numpy example_cfg
          example_world (Notebook_model example_mb_model) [3100, 3400] (PyInt 2000))
     = Inr [0, 1 / 31536000]
   \<and> fst (mb_model_get_annual_mb failing_massbalance exact_arithmetic example_numpy example_cfg
          example_world
          (Library_model \<lparr>entity = ''RGI60-14.05446'', temp_bias = None, prcp_fac = None,
                          melt_f = None\<rparr>)
          [3100, 3400] (PyInt 2000))
     = Inl (LibraryError 0)
   \<and> fst (get_annual_mb exact_arithmetic example_numpy example_cfg [3100, 3400] (PyInt 2000)
          example_mb_model)
     = Inr [0, 1 / 31536000]"
  by (simp add: mb_model_get_annual_mb_def get_annual_mb_def get_random_ela_h_def py_int_def
        exact_arithmetic_def example_numpy_def example_cfg_def example_mb_model_def
        failing_massbalance_def)

text \<open>
  C2, amended. The calibration notebook instantiates the library's \<open>MonthlyTIModel\<close> with
  scalar parameters: the four models of its sensitivity loop have the melt factors 1, 5,
  10 and 15 and differ in nothing else (same glacier, \<open>temp_bias\<close> 0, \<open>prcp_fac\<close> 1), and
  the loop is one request to the library's \<open>get_specific_mb\<close> for each of them, in this
  order. Whatever is asked of a \<open>MonthlyTIModel\<close> through \<open>get_annual_mb\<close>, any number
  of times, is answered by the library's method alone: the answers involve neither the
  float arithmetic, nor numpy, nor \<open>oggm.cfg\<close> as the notebook's class uses them. The
  last notebook defines its own class: what an instance of \<open>RandomLinearMassBalance\<close>
  answers to any list of requests is computed by the \<open>get_annual_mb\<close> written in this
  repository, from the float arithmetic, numpy's generator and \<open>oggm.cfg\<close>, and involves
  neither the mass-balance models of the library nor, once the instance is constructed,
  the directory.
\<close>

theorem mass_balance_by_library_or_by_notebook:
  "map melt_f (sensitivity_models gdir) = [Some 1, Some 5, Some 10, Some 15]
   \<and> map (\<lambda>ti. ti\<lparr>melt_f := None\<rparr>) (sensitivity_models gdir)
       = replicate 4 \<lparr>entity = gdir, temp_bias = Some 0, prcp_fac = Some 1, melt_f = None\<rparr>
   \<and> forget_returns (sensitivity_loop mbl gdir years [1, 5, 10, 15] w)
       = run_calls
           (map (\<lambda>ti w. forget_returns (MonthlyTIModel_get_specific_mb mbl ti years w))
                (sensitivity_models gdir)) w
   \<and> mb_model_requests mbl ar np c w requests (Library_model ti)
       = (map (\<lambda>(heights, year). MonthlyTIModel_get_annual_mb mbl ti heights year w) requests,
          Library_model ti)
   \<and> mb_model_requests mbl ar np c w requests (Notebook_model self)
       = (fst (annual_mb_requests ar np c requests self),
          Notebook_model (snd (annual_mb_requests ar np c requests self)))"
proof -
  have params: "map melt_f (sensitivity_models gdir) = [Some 1, Some 5, Some 10, Some 15]"
    by (simp add: sensitivity_models_def sensitivity_model_def)
  have same: "map (\<lambda>ti. ti\<lparr>melt_f := None\<rparr>) (sensitivity_models gdir)
       = replicate 4 \<lparr>entity = gdir, temp_bias = Some 0, prcp_fac = Some 1, melt_f = None\<rparr>"
    by (simp add: sensitivity_models_def sensitivity_model_def numeral_eq_Suc)
  have loop: "forget_returns (sensitivity_loop mbl gdir years [1, 5, 10, 15] w)
       = run_calls
           (map (\<lambda>ti w. forget_returns (MonthlyTIModel_get_specific_mb mbl ti years w))
                (sensitivity_models gdir)) w"
    by (simp only: sensitivity_loop_calls sensitivity_models_loop)
  have lib: "mb_model_requests mbl ar np c w requests (Library_model ti)
       = (map (\<lambda>(heights, year). MonthlyTIModel_get_annual_mb mbl ti heights year w) requests,
          Library_model ti)"
    by (rule mb_model_requests_library)
  have nb: "mb_model_requests mbl ar np c w requests (Notebook_model self)
       = (fst (annual_mb_requests ar np c requests self),
          Notebook_model (snd (annual_mb_requests ar np c requests self)))"
    by (rule mb_model_requests_notebook)
  from params same loop lib nb show ?thesis by (intro conjI)
qed

theorem mass_balance_by_library_or_by_notebook_witness:
  "fst (sensitivity_loop example_massbalance ''RGI60-14.05446'' [1980, 1981] [1, 5, 10, 15]
          example_world)
     = Inr [[1, 1], [5, 5], [10, 10], [15, 15]]
   \<and> fst (mb_model_requests example_massbalance exact_arithmetic example_numpy example_cfg
            example_world [([3100], PyInt 2000), ([3100], PyInt 2003)]
            (Library_model (sensitivity_model ''RGI60-14.05446'' 10)))
       = [Inr [10], Inr [10]]
   \<and> fst (mb_model_requests failing_massbalance exact_arithmetic example_numpy example_cfg
            example_world [([3100], PyInt 2000), ([3100], PyInt 2001), ([3100], PyInt 2000)]
            (Notebook_model example_mb_model))
       = [Inr [0], Inr [- 1 / 94608000], Inr [0]]"
proof -
  note resolved = mass_balance_by_library_or_by_notebook
  have loop: "fst (sensitivity_loop example_massbalance ''RGI60-14.05446'' [1980, 1981]
                     [1, 5, 10, 15] example_world)
                = Inr [[1, 1], [5, 5], [10, 10], [15, 15]]"
    by (simp add: example_massbalance_def sensitivity_model_def)
  from resolved [where mbl = example_massbalance and ar = exact_arithmetic and np = example_numpy
              and c = example_cfg and w = example_world
              and requests = "[([3100], PyInt 2000), ([3100], PyInt 2003)]"
              and ti = "sensitivity_model ''RGI60-14.05446'' 10"]
  have lib: "fst (mb_model_requests example_massbalance exact_arithmetic example_numpy
                    example_cfg example_world [([3100], PyInt 2000), ([3100], PyInt 2003)]
                    (Library_model (sensitivity_model ''RGI60-14.05446'' 10)))
               = [Inr [10], Inr [10]]"
    by (simp add: example_massbalance_def sensitivity_model_def)
  from resolved [where mbl = failing_massbalance and ar = exact_arithmetic and np = example_numpy
              and c = example_cfg and w = example_world
              and requests = "[([3100], PyInt 2000), ([3100], PyInt 2001), ([3100], PyInt 2000)]"
              and self = example_mb_model]
  have nb: "fst (mb_model_requests failing_massbalance exact_arithmetic example_numpy
                   example_cfg example_world
                   [([3100], PyInt 2000), ([3100], PyInt 2001), ([3100], PyInt 2000)]
                   (Notebook_model example_mb_model))
              = [Inr [0], Inr [- 1 / 94608000], Inr [0]]"
    by (simp add: get_annual_mb_def get_random_ela_h_def py_int_def exact_arithmetic_def
          example_numpy_def example_cfg_def example_mb_model_def)
  from loop lib nb show ?thesis by (intro conjI)
qed

section \<open>Re-opening the glacier directories\<close>

text \<open>
  C4. After \<open>init_glacier_directories\<close> with remote arguments has succeeded, the call
  with the same identifiers and no remote argument returns the same handles and leaves
  the storage as it is: the same files, the same directories, and nothing added to the
  log of network fetches.
\<close>

theorem reinit_is_local_lookup:
  assumes "init_glacier_directories server rgi_ids (Some args) s = (Inr gdirs, s1)"
  shows "init_glacier_directories server rgi_ids None s1 = (Inr gdirs, s1)"
proof -
  from assms have ok: "list_all (\<lambda>g. server args g \<noteq> None) rgi_ids"
    by (simp add: init_glacier_directories_def split: if_splits)
  with assms have g: "gdirs = rgi_ids"
    and d: "directories s1 = rgi_ids @ filter (\<lambda>g. g \<notin> set rgi_ids) (directories s)"
    by (auto simp: init_glacier_directories_def)
  from d have "list_all (\<lambda>g. g \<in> set (directories s1)) rgi_ids"
    by (simp add: list_all_iff)
  with g show ?thesis
    by (simp add: init_glacier_directories_def)
qed

theorem reinit_is_local_lookup_witness:
  "fst (init_glacier_directories example_server [''RGI60-11.00897''] (Some example_args)
          empty_storage) = Inr [''RGI60-11.00897'']
   \<and> fetched (snd (init_glacier_directories example_server [''RGI60-11.00897'']
                     (Some example_args) empty_storage))
       = [(''RGI60-11.00897'', example_args)]
   \<and> init_glacier_directories example_server [''RGI60-11.00897''] None
        (snd (init_glacier_directories example_server [''RGI60-11.00897''] (Some example_args)
                empty_storage))
       = (Inr [''RGI60-11.00897''],
          snd (init_glacier_directories example_server [''RGI60-11.00897''] (Some example_args)
                 empty_storage))"
proof -
  let ?first = "init_glacier_directories example_server [''RGI60-11.00897'']
                  (Some example_args) empty_storage"
  have r: "fst ?first = Inr [''RGI60-11.00897'']"
    by (simp add: init_glacier_directories_def example_server_def example_args_def)
  have f: "fetched (snd ?first) = [(''RGI60-11.00897'', example_args)]"
    by (simp add: init_glacier_directories_def example_server_def example_args_def
          empty_storage_def)
  from r have h: "?first = (Inr [''RGI60-11.00897''], snd ?first)"
    by (metis prod.collapse)
  from reinit_is_local_lookup [OF h] r f show ?thesis by simp
qed

end
